theory Spec2Isabelle
  imports Main
begin

section \<open>JavaScript values\<close>

text \<open>
  The file \<^verbatim>\<open>src/implementors/core/marker/trait.Unpin.js\<close> is one immediately invoked
  function: lines 1 to 3 bind the object literal \<^verbatim>\<open>implementors\<close>, line 4 hands it
  either to the page's hook or to the pending slot.

  The values the fragment builds and meets are modelled by one datatype. An object is the
  list of its own properties in insertion order; \<open>Number n\<close> stands for the
  integer-valued numbers (the only numeric literal of the file is \<^verbatim>\<open>1\<close>) and \<open>NaN\<close>,
  the falsy number besides zero, is a constructor of its own; \<open>Function f\<close> is a
  callable value, \<open>f\<close> naming its behaviour in the host environment.
\<close>

datatype jsval =
    Undefined
  | Null
  | Boolean bool
  | Number int
  | NaN
  | Str string
  | Array "jsval list"
  | Object "(string \<times> jsval) list"
  | Function nat

text \<open>The conversion to a boolean that \<^verbatim>\<open>if (...)\<close> applies to its condition.\<close>

fun truthy :: "jsval \<Rightarrow> bool" where
  "truthy Undefined = False"
| "truthy Null = False"
| "truthy (Boolean b) = b"
| "truthy (Number n) = (n \<noteq> 0)"
| "truthy NaN = False"
| "truthy (Str s) = (s \<noteq> [])"
| "truthy (Array xs) = True"
| "truthy (Object kvs) = True"
| "truthy (Function f) = True"

text \<open>
  Reading a value: \<^verbatim>\<open>Object.keys(o)\<close>, \<^verbatim>\<open>o[k]\<close> (the last binding of a repeated key
  wins, a missing key reads \<^verbatim>\<open>undefined\<close>), \<^verbatim>\<open>a.length\<close>, \<^verbatim>\<open>a[i]\<close> (an index out of
  range reads \<^verbatim>\<open>undefined\<close>), and the elements of an array in order.
\<close>

fun keys :: "jsval \<Rightarrow> string list" where
  "keys (Object kvs) = map fst kvs"
| "keys _ = []"

fun get :: "jsval \<Rightarrow> string \<Rightarrow> jsval" where
  "get (Object kvs) k = (case map_of (rev kvs) k of Some v \<Rightarrow> v | None \<Rightarrow> Undefined)"
| "get _ k = Undefined"

fun elements :: "jsval \<Rightarrow> jsval list" where
  "elements (Array xs) = xs"
| "elements _ = []"

fun len :: "jsval \<Rightarrow> nat" where
  "len v = length (elements v)"

fun index :: "jsval \<Rightarrow> nat \<Rightarrow> jsval" where
  "index (Array xs) i = (if i < length xs then xs ! i else Undefined)"
| "index _ i = Undefined"

section \<open>The implementor table (lines 1 to 3)\<close>

text \<open>
  The literal bound to \<^verbatim>\<open>var implementors\<close>, character for character: line 2 is the
  value of the key \<^verbatim>\<open>"actix"\<close>, line 3 the value of the key \<^verbatim>\<open>"actix_broker"\<close>. The
  escape sequences of the source's string literals are resolved: an escaped quotation
  mark is the quotation mark, the escape of the letter n is the line feed.
\<close>

definition implementors_actix :: jsval where
  "implementors_actix = Array [
     Array [Str ''impl <a class=\"trait\" href=\"https://doc.rust-lang.org/nightly/core/marker/trait.Unpin.html\" title=\"trait core::marker::Unpin\">Unpin</a> for <a class=\"enum\" href=\"actix/prelude/enum.ActorState.html\" title=\"enum actix::prelude::ActorState\">ActorState</a>'', Number 1, Array [Str ''actix::actor::ActorState'']],
     Array [Str ''impl <a class=\"trait\" href=\"https://doc.rust-lang.org/nightly/core/marker/trait.Unpin.html\" title=\"trait core::marker::Unpin\">Unpin</a> for <a class=\"enum\" href=\"actix/prelude/enum.Running.html\" title=\"enum actix::prelude::Running\">Running</a>'', Number 1, Array [Str ''actix::actor::Running'']],
     Array [Str ''impl <a class=\"trait\" href=\"https://doc.rust-lang.org/nightly/core/marker/trait.Unpin.html\" title=\"trait core::marker::Unpin\">Unpin</a> for <a class=\"struct\" href=\"actix/prelude/struct.SpawnHandle.html\" title=\"struct actix::prelude::SpawnHandle\">SpawnHandle</a>'', Number 1, Array [Str ''actix::actor::SpawnHandle'']],
     Array [Str ''impl&lt;A&gt; <a class=\"trait\" href=\"https://doc.rust-lang.org/nightly/core/marker/trait.Unpin.html\" title=\"trait core::marker::Unpin\">Unpin</a> for <a class=\"struct\" href=\"actix/prelude/struct.Context.html\" title=\"struct actix::prelude::Context\">Context</a>&lt;A&gt;'', Number 1, Array [Str ''actix::context::Context'']],
     Array [Str ''impl&lt;A&gt; <a class=\"trait\" href=\"https://doc.rust-lang.org/nightly/core/marker/trait.Unpin.html\" title=\"trait core::marker::Unpin\">Unpin</a> for <a class=\"struct\" href=\"actix/dev/struct.ContextParts.html\" title=\"struct actix::dev::ContextParts\">ContextParts</a>&lt;A&gt;'', Number 1, Array [Str ''actix::contextimpl::ContextParts'']],
     Array [Str ''impl&lt;A, C&gt; <a class=\"trait\" href=\"https://doc.rust-lang.org/nightly/core/marker/trait.Unpin.html\" title=\"trait core::marker::Unpin\">Unpin</a> for <a class=\"struct\" href=\"actix/dev/struct.ContextFut.html\" title=\"struct actix::dev::ContextFut\">ContextFut</a>&lt;A, C&gt;'', Number 1, Array [Str ''actix::contextimpl::ContextFut'']],
     Array [Str ''impl&lt;M&gt; <a class=\"trait\" href=\"https://doc.rust-lang.org/nightly/core/marker/trait.Unpin.html\" title=\"trait core::marker::Unpin\">Unpin</a> for <a class=\"struct\" href=\"actix/prelude/struct.MessageResult.html\" title=\"struct actix::prelude::MessageResult\">MessageResult</a>&lt;M&gt;<span class=\"where fmt-newline\">where\<newline>    &lt;M as <a class=\"trait\" href=\"actix/prelude/trait.Message.html\" title=\"trait actix::prelude::Message\">Message</a>&gt;::<a class=\"associatedtype\" href=\"actix/prelude/trait.Message.html#associatedtype.Result\" title=\"type actix::prelude::Message::Result\">Result</a>: <a class=\"trait\" href=\"https://doc.rust-lang.org/nightly/core/marker/trait.Unpin.html\" title=\"trait core::marker::Unpin\">Unpin</a>,</span>'', Number 1, Array [Str ''actix::handler::MessageResult'']],
     Array [Str ''impl&lt;A, T&gt; <a class=\"trait\" href=\"https://doc.rust-lang.org/nightly/core/marker/trait.Unpin.html\" title=\"trait core::marker::Unpin\">Unpin</a> for <a class=\"struct\" href=\"actix/prelude/struct.AtomicResponse.html\" title=\"struct actix::prelude::AtomicResponse\">AtomicResponse</a>&lt;A, T&gt;'', Number 1, Array [Str ''actix::handler::AtomicResponse'']],
     Array [Str ''impl&lt;I&gt; <a class=\"trait\" href=\"https://doc.rust-lang.org/nightly/core/marker/trait.Unpin.html\" title=\"trait core::marker::Unpin\">Unpin</a> for <a class=\"struct\" href=\"actix/prelude/struct.Response.html\" title=\"struct actix::prelude::Response\">Response</a>&lt;I&gt;<span class=\"where fmt-newline\">where\<newline>    I: <a class=\"trait\" href=\"https://doc.rust-lang.org/nightly/core/marker/trait.Unpin.html\" title=\"trait core::marker::Unpin\">Unpin</a>,</span>'', Number 1, Array [Str ''actix::handler::Response'']],
     Array [Str ''impl&lt;A, I&gt; <a class=\"trait\" href=\"https://doc.rust-lang.org/nightly/core/marker/trait.Unpin.html\" title=\"trait core::marker::Unpin\">Unpin</a> for <a class=\"struct\" href=\"actix/prelude/struct.ActorResponse.html\" title=\"struct actix::prelude::ActorResponse\">ActorResponse</a>&lt;A, I&gt;<span class=\"where fmt-newline\">where\<newline>    I: <a class=\"trait\" href=\"https://doc.rust-lang.org/nightly/core/marker/trait.Unpin.html\" title=\"trait core::marker::Unpin\">Unpin</a>,</span>'', Number 1, Array [Str ''actix::handler::ActorResponse'']],
     Array [Str ''impl&lt;A&gt; <a class=\"trait\" href=\"https://doc.rust-lang.org/nightly/core/marker/trait.Unpin.html\" title=\"trait core::marker::Unpin\">Unpin</a> for <a class=\"struct\" href=\"actix/dev/channel/struct.AddressSender.html\" title=\"struct actix::dev::channel::AddressSender\">AddressSender</a>&lt;A&gt;'', Number 1, Array [Str ''actix::address::channel::AddressSender'']],
     Array [Str ''impl&lt;A&gt; <a class=\"trait\" href=\"https://doc.rust-lang.org/nightly/core/marker/trait.Unpin.html\" title=\"trait core::marker::Unpin\">Unpin</a> for <a class=\"struct\" href=\"actix/dev/channel/struct.AddressReceiver.html\" title=\"struct actix::dev::channel::AddressReceiver\">AddressReceiver</a>&lt;A&gt;'', Number 1, Array [Str ''actix::address::channel::AddressReceiver'']],
     Array [Str ''impl&lt;A&gt; <a class=\"trait\" href=\"https://doc.rust-lang.org/nightly/core/marker/trait.Unpin.html\" title=\"trait core::marker::Unpin\">Unpin</a> for <a class=\"struct\" href=\"actix/dev/struct.Envelope.html\" title=\"struct actix::dev::Envelope\">Envelope</a>&lt;A&gt;'', Number 1, Array [Str ''actix::address::envelope::Envelope'']],
     Array [Str ''impl&lt;T&gt; <a class=\"trait\" href=\"https://doc.rust-lang.org/nightly/core/marker/trait.Unpin.html\" title=\"trait core::marker::Unpin\">Unpin</a> for <a class=\"enum\" href=\"actix/prelude/enum.SendError.html\" title=\"enum actix::prelude::SendError\">SendError</a>&lt;T&gt;<span class=\"where fmt-newline\">where\<newline>    T: <a class=\"trait\" href=\"https://doc.rust-lang.org/nightly/core/marker/trait.Unpin.html\" title=\"trait core::marker::Unpin\">Unpin</a>,</span>'', Number 1, Array [Str ''actix::address::SendError'']],
     Array [Str ''impl <a class=\"trait\" href=\"https://doc.rust-lang.org/nightly/core/marker/trait.Unpin.html\" title=\"trait core::marker::Unpin\">Unpin</a> for <a class=\"enum\" href=\"actix/prelude/enum.MailboxError.html\" title=\"enum actix::prelude::MailboxError\">MailboxError</a>'', Number 1, Array [Str ''actix::address::MailboxError'']],
     Array [Str ''impl&lt;A&gt; <a class=\"trait\" href=\"https://doc.rust-lang.org/nightly/core/marker/trait.Unpin.html\" title=\"trait core::marker::Unpin\">Unpin</a> for <a class=\"struct\" href=\"actix/prelude/struct.Addr.html\" title=\"struct actix::prelude::Addr\">Addr</a>&lt;A&gt;'', Number 1, Array [Str ''actix::address::Addr'']],
     Array [Str ''impl&lt;A&gt; <a class=\"trait\" href=\"https://doc.rust-lang.org/nightly/core/marker/trait.Unpin.html\" title=\"trait core::marker::Unpin\">Unpin</a> for <a class=\"struct\" href=\"actix/struct.WeakAddr.html\" title=\"struct actix::WeakAddr\">WeakAddr</a>&lt;A&gt;'', Number 1, Array [Str ''actix::address::WeakAddr'']],
     Array [Str ''impl&lt;M&gt; <a class=\"trait\" href=\"https://doc.rust-lang.org/nightly/core/marker/trait.Unpin.html\" title=\"trait core::marker::Unpin\">Unpin</a> for <a class=\"struct\" href=\"actix/prelude/struct.Recipient.html\" title=\"struct actix::prelude::Recipient\">Recipient</a>&lt;M&gt;'', Number 1, Array [Str ''actix::address::Recipient'']],
     Array [Str ''impl&lt;M&gt; <a class=\"trait\" href=\"https://doc.rust-lang.org/nightly/core/marker/trait.Unpin.html\" title=\"trait core::marker::Unpin\">Unpin</a> for <a class=\"struct\" href=\"actix/struct.WeakRecipient.html\" title=\"struct actix::WeakRecipient\">WeakRecipient</a>&lt;M&gt;'', Number 1, Array [Str ''actix::address::WeakRecipient'']],
     Array [Str ''impl&lt;A&gt; <a class=\"trait\" href=\"https://doc.rust-lang.org/nightly/core/marker/trait.Unpin.html\" title=\"trait core::marker::Unpin\">Unpin</a> for <a class=\"struct\" href=\"actix/dev/struct.Mailbox.html\" title=\"struct actix::dev::Mailbox\">Mailbox</a>&lt;A&gt;'', Number 1, Array [Str ''actix::mailbox::Mailbox'']],
     Array [Str ''impl&lt;T&gt; <a class=\"trait\" href=\"https://doc.rust-lang.org/nightly/core/marker/trait.Unpin.html\" title=\"trait core::marker::Unpin\">Unpin</a> for <a class=\"struct\" href=\"actix/actors/mocker/struct.Mocker.html\" title=\"struct actix::actors::mocker::Mocker\">Mocker</a>&lt;T&gt;'', Number 1, Array [Str ''actix::actors::mocker::Mocker'']],
     Array [Str ''impl&lt;T, E&gt; <a class=\"trait\" href=\"https://doc.rust-lang.org/nightly/core/marker/trait.Unpin.html\" title=\"trait core::marker::Unpin\">Unpin</a> for <a class=\"struct\" href=\"actix/io/struct.Writer.html\" title=\"struct actix::io::Writer\">Writer</a>&lt;T, E&gt;'', Number 1, Array [Str ''actix::io::Writer'']],
     Array [Str ''impl&lt;I, T, U&gt; <a class=\"trait\" href=\"https://doc.rust-lang.org/nightly/core/marker/trait.Unpin.html\" title=\"trait core::marker::Unpin\">Unpin</a> for <a class=\"struct\" href=\"actix/io/struct.FramedWrite.html\" title=\"struct actix::io::FramedWrite\">FramedWrite</a>&lt;I, T, U&gt;<span class=\"where fmt-newline\">where\<newline>    U: <a class=\"trait\" href=\"https://doc.rust-lang.org/nightly/core/marker/trait.Unpin.html\" title=\"trait core::marker::Unpin\">Unpin</a>,</span>'', Number 1, Array [Str ''actix::io::FramedWrite'']],
     Array [Str ''impl&lt;I, S&gt; <a class=\"trait\" href=\"https://doc.rust-lang.org/nightly/core/marker/trait.Unpin.html\" title=\"trait core::marker::Unpin\">Unpin</a> for <a class=\"struct\" href=\"actix/io/struct.SinkWrite.html\" title=\"struct actix::io::SinkWrite\">SinkWrite</a>&lt;I, S&gt;'', Number 1, Array [Str ''actix::io::SinkWrite'']],
     Array [Str ''impl <a class=\"trait\" href=\"https://doc.rust-lang.org/nightly/core/marker/trait.Unpin.html\" title=\"trait core::marker::Unpin\">Unpin</a> for <a class=\"struct\" href=\"actix/registry/struct.Registry.html\" title=\"struct actix::registry::Registry\">Registry</a>'', Number 1, Array [Str ''actix::registry::Registry'']],
     Array [Str ''impl <a class=\"trait\" href=\"https://doc.rust-lang.org/nightly/core/marker/trait.Unpin.html\" title=\"trait core::marker::Unpin\">Unpin</a> for <a class=\"struct\" href=\"actix/registry/struct.SystemRegistry.html\" title=\"struct actix::registry::SystemRegistry\">SystemRegistry</a>'', Number 1, Array [Str ''actix::registry::SystemRegistry'']],
     Array [Str ''impl&lt;A&gt; <a class=\"trait\" href=\"https://doc.rust-lang.org/nightly/core/marker/trait.Unpin.html\" title=\"trait core::marker::Unpin\">Unpin</a> for <a class=\"struct\" href=\"actix/sync/struct.SyncArbiter.html\" title=\"struct actix::sync::SyncArbiter\">SyncArbiter</a>&lt;A&gt;'', Number 1, Array [Str ''actix::sync::SyncArbiter'']],
     Array [Str ''impl&lt;A&gt; <a class=\"trait\" href=\"https://doc.rust-lang.org/nightly/core/marker/trait.Unpin.html\" title=\"trait core::marker::Unpin\">Unpin</a> for <a class=\"struct\" href=\"actix/sync/struct.SyncContext.html\" title=\"struct actix::sync::SyncContext\">SyncContext</a>&lt;A&gt;'', Number 1, Array [Str ''actix::sync::SyncContext'']],
     Array [Str ''impl&lt;T&gt; <a class=\"trait\" href=\"https://doc.rust-lang.org/nightly/core/marker/trait.Unpin.html\" title=\"trait core::marker::Unpin\">Unpin</a> for <a class=\"struct\" href=\"actix/utils/struct.Condition.html\" title=\"struct actix::utils::Condition\">Condition</a>&lt;T&gt;'', Number 1, Array [Str ''actix::utils::Condition'']],
     Array [Str ''impl&lt;'__pin, Fut, F&gt; <a class=\"trait\" href=\"https://doc.rust-lang.org/nightly/core/marker/trait.Unpin.html\" title=\"trait core::marker::Unpin\">Unpin</a> for <a class=\"enum\" href=\"actix/fut/try_future/enum.MapErr.html\" title=\"enum actix::fut::try_future::MapErr\">MapErr</a>&lt;Fut, F&gt;<span class=\"where fmt-newline\">where\<newline>    __Origin&lt;'__pin, Fut, F&gt;: <a class=\"trait\" href=\"https://doc.rust-lang.org/nightly/core/marker/trait.Unpin.html\" title=\"trait core::marker::Unpin\">Unpin</a>,</span>''],
     Array [Str ''impl&lt;'__pin, S&gt; <a class=\"trait\" href=\"https://doc.rust-lang.org/nightly/core/marker/trait.Unpin.html\" title=\"trait core::marker::Unpin\">Unpin</a> for <a class=\"struct\" href=\"actix/fut/stream/struct.Timeout.html\" title=\"struct actix::fut::stream::Timeout\">Timeout</a>&lt;S&gt;<span class=\"where fmt-newline\">where\<newline>    __Origin&lt;'__pin, S&gt;: <a class=\"trait\" href=\"https://doc.rust-lang.org/nightly/core/marker/trait.Unpin.html\" title=\"trait core::marker::Unpin\">Unpin</a>,</span>''],
     Array [Str ''impl&lt;'__pin, S, F, Fut&gt; <a class=\"trait\" href=\"https://doc.rust-lang.org/nightly/core/marker/trait.Unpin.html\" title=\"trait core::marker::Unpin\">Unpin</a> for <a class=\"struct\" href=\"actix/fut/stream/struct.Then.html\" title=\"struct actix::fut::stream::Then\">Then</a>&lt;S, F, Fut&gt;<span class=\"where fmt-newline\">where\<newline>    __Origin&lt;'__pin, S, F, Fut&gt;: <a class=\"trait\" href=\"https://doc.rust-lang.org/nightly/core/marker/trait.Unpin.html\" title=\"trait core::marker::Unpin\">Unpin</a>,</span>''],
     Array [Str ''impl&lt;'__pin, Fut, F&gt; <a class=\"trait\" href=\"https://doc.rust-lang.org/nightly/core/marker/trait.Unpin.html\" title=\"trait core::marker::Unpin\">Unpin</a> for <a class=\"enum\" href=\"actix/fut/future/enum.Map.html\" title=\"enum actix::fut::future::Map\">Map</a>&lt;Fut, F&gt;<span class=\"where fmt-newline\">where\<newline>    __Origin&lt;'__pin, Fut, F&gt;: <a class=\"trait\" href=\"https://doc.rust-lang.org/nightly/core/marker/trait.Unpin.html\" title=\"trait core::marker::Unpin\">Unpin</a>,</span>''],
     Array [Str ''impl&lt;'__pin, F&gt; <a class=\"trait\" href=\"https://doc.rust-lang.org/nightly/core/marker/trait.Unpin.html\" title=\"trait core::marker::Unpin\">Unpin</a> for <a class=\"struct\" href=\"actix/fut/future/struct.Timeout.html\" title=\"struct actix::fut::future::Timeout\">Timeout</a>&lt;F&gt;<span class=\"where fmt-newline\">where\<newline>    __Origin&lt;'__pin, F&gt;: <a class=\"trait\" href=\"https://doc.rust-lang.org/nightly/core/marker/trait.Unpin.html\" title=\"trait core::marker::Unpin\">Unpin</a>,</span>''],
     Array [Str ''impl&lt;'__pin, S, F&gt; <a class=\"trait\" href=\"https://doc.rust-lang.org/nightly/core/marker/trait.Unpin.html\" title=\"trait core::marker::Unpin\">Unpin</a> for <a class=\"struct\" href=\"actix/fut/stream/struct.Map.html\" title=\"struct actix::fut::stream::Map\">Map</a>&lt;S, F&gt;<span class=\"where fmt-newline\">where\<newline>    __Origin&lt;'__pin, S, F&gt;: <a class=\"trait\" href=\"https://doc.rust-lang.org/nightly/core/marker/trait.Unpin.html\" title=\"trait core::marker::Unpin\">Unpin</a>,</span>''],
     Array [Str ''impl&lt;'__pin, Fut, F&gt; <a class=\"trait\" href=\"https://doc.rust-lang.org/nightly/core/marker/trait.Unpin.html\" title=\"trait core::marker::Unpin\">Unpin</a> for <a class=\"enum\" href=\"actix/fut/try_future/enum.MapOk.html\" title=\"enum actix::fut::try_future::MapOk\">MapOk</a>&lt;Fut, F&gt;<span class=\"where fmt-newline\">where\<newline>    __Origin&lt;'__pin, Fut, F&gt;: <a class=\"trait\" href=\"https://doc.rust-lang.org/nightly/core/marker/trait.Unpin.html\" title=\"trait core::marker::Unpin\">Unpin</a>,</span>''],
     Array [Str ''impl&lt;'__pin, F, A&gt; <a class=\"trait\" href=\"https://doc.rust-lang.org/nightly/core/marker/trait.Unpin.html\" title=\"trait core::marker::Unpin\">Unpin</a> for <a class=\"struct\" href=\"actix/fut/future/struct.FutureWrap.html\" title=\"struct actix::fut::future::FutureWrap\">FutureWrap</a>&lt;F, A&gt;<span class=\"where fmt-newline\">where\<newline>    __Origin&lt;'__pin, F, A&gt;: <a class=\"trait\" href=\"https://doc.rust-lang.org/nightly/core/marker/trait.Unpin.html\" title=\"trait core::marker::Unpin\">Unpin</a>,\<newline>    F: <a class=\"trait\" href=\"https://doc.rust-lang.org/nightly/core/future/future/trait.Future.html\" title=\"trait core::future::future::Future\">Future</a>,\<newline>    A: <a class=\"trait\" href=\"actix/prelude/trait.Actor.html\" title=\"trait actix::prelude::Actor\">Actor</a>,</span>''],
     Array [Str ''impl&lt;'__pin, S, C&gt; <a class=\"trait\" href=\"https://doc.rust-lang.org/nightly/core/marker/trait.Unpin.html\" title=\"trait core::marker::Unpin\">Unpin</a> for <a class=\"struct\" href=\"actix/fut/stream/struct.Collect.html\" title=\"struct actix::fut::stream::Collect\">Collect</a>&lt;S, C&gt;<span class=\"where fmt-newline\">where\<newline>    __Origin&lt;'__pin, S, C&gt;: <a class=\"trait\" href=\"https://doc.rust-lang.org/nightly/core/marker/trait.Unpin.html\" title=\"trait core::marker::Unpin\">Unpin</a>,</span>''],
     Array [Str ''impl&lt;'__pin, S, F, Fut, T&gt; <a class=\"trait\" href=\"https://doc.rust-lang.org/nightly/core/marker/trait.Unpin.html\" title=\"trait core::marker::Unpin\">Unpin</a> for <a class=\"struct\" href=\"actix/fut/stream/struct.Fold.html\" title=\"struct actix::fut::stream::Fold\">Fold</a>&lt;S, F, Fut, T&gt;<span class=\"where fmt-newline\">where\<newline>    __Origin&lt;'__pin, S, F, Fut, T&gt;: <a class=\"trait\" href=\"https://doc.rust-lang.org/nightly/core/marker/trait.Unpin.html\" title=\"trait core::marker::Unpin\">Unpin</a>,</span>''],
     Array [Str ''impl&lt;'__pin, S, A&gt; <a class=\"trait\" href=\"https://doc.rust-lang.org/nightly/core/marker/trait.Unpin.html\" title=\"trait core::marker::Unpin\">Unpin</a> for <a class=\"struct\" href=\"actix/fut/stream/struct.StreamWrap.html\" title=\"struct actix::fut::stream::StreamWrap\">StreamWrap</a>&lt;S, A&gt;<span class=\"where fmt-newline\">where\<newline>    __Origin&lt;'__pin, S, A&gt;: <a class=\"trait\" href=\"https://doc.rust-lang.org/nightly/core/marker/trait.Unpin.html\" title=\"trait core::marker::Unpin\">Unpin</a>,\<newline>    S: <a class=\"trait\" href=\"actix/prelude/trait.Stream.html\" title=\"trait actix::prelude::Stream\">Stream</a>,\<newline>    A: <a class=\"trait\" href=\"actix/prelude/trait.Actor.html\" title=\"trait actix::prelude::Actor\">Actor</a>,</span>''],
     Array [Str ''impl&lt;'__pin, A: <a class=\"trait\" href=\"actix/prelude/trait.Actor.html\" title=\"trait actix::prelude::Actor\">Actor</a>&gt; <a class=\"trait\" href=\"https://doc.rust-lang.org/nightly/core/marker/trait.Unpin.html\" title=\"trait core::marker::Unpin\">Unpin</a> for <a class=\"struct\" href=\"actix/utils/struct.IntervalFunc.html\" title=\"struct actix::utils::IntervalFunc\">IntervalFunc</a>&lt;A&gt;<span class=\"where fmt-newline\">where\<newline>    __Origin&lt;'__pin, A&gt;: <a class=\"trait\" href=\"https://doc.rust-lang.org/nightly/core/marker/trait.Unpin.html\" title=\"trait core::marker::Unpin\">Unpin</a>,</span>''],
     Array [Str ''impl&lt;'__pin, A: <a class=\"trait\" href=\"actix/prelude/trait.Actor.html\" title=\"trait actix::prelude::Actor\">Actor</a>&gt; <a class=\"trait\" href=\"https://doc.rust-lang.org/nightly/core/marker/trait.Unpin.html\" title=\"trait core::marker::Unpin\">Unpin</a> for <a class=\"struct\" href=\"actix/utils/struct.TimerFunc.html\" title=\"struct actix::utils::TimerFunc\">TimerFunc</a>&lt;A&gt;<span class=\"where fmt-newline\">where\<newline>    __Origin&lt;'__pin, A&gt;: <a class=\"trait\" href=\"https://doc.rust-lang.org/nightly/core/marker/trait.Unpin.html\" title=\"trait core::marker::Unpin\">Unpin</a>,</span>''],
     Array [Str ''impl&lt;'__pin, S, I, F, Fut&gt; <a class=\"trait\" href=\"https://doc.rust-lang.org/nightly/core/marker/trait.Unpin.html\" title=\"trait core::marker::Unpin\">Unpin</a> for <a class=\"struct\" href=\"actix/fut/stream/struct.SkipWhile.html\" title=\"struct actix::fut::stream::SkipWhile\">SkipWhile</a>&lt;S, I, F, Fut&gt;<span class=\"where fmt-newline\">where\<newline>    __Origin&lt;'__pin, S, I, F, Fut&gt;: <a class=\"trait\" href=\"https://doc.rust-lang.org/nightly/core/marker/trait.Unpin.html\" title=\"trait core::marker::Unpin\">Unpin</a>,</span>''],
     Array [Str ''impl&lt;'__pin, A&gt; <a class=\"trait\" href=\"https://doc.rust-lang.org/nightly/core/marker/trait.Unpin.html\" title=\"trait core::marker::Unpin\">Unpin</a> for <a class=\"struct\" href=\"actix/prelude/struct.Supervisor.html\" title=\"struct actix::prelude::Supervisor\">Supervisor</a>&lt;A&gt;<span class=\"where fmt-newline\">where\<newline>    __Origin&lt;'__pin, A&gt;: <a class=\"trait\" href=\"https://doc.rust-lang.org/nightly/core/marker/trait.Unpin.html\" title=\"trait core::marker::Unpin\">Unpin</a>,\<newline>    A: <a class=\"trait\" href=\"actix/prelude/trait.Supervised.html\" title=\"trait actix::prelude::Supervised\">Supervised</a> + <a class=\"trait\" href=\"actix/prelude/trait.Actor.html\" title=\"trait actix::prelude::Actor\">Actor</a>&lt;Context = <a class=\"struct\" href=\"actix/prelude/struct.Context.html\" title=\"struct actix::prelude::Context\">Context</a>&lt;A&gt;&gt;,</span>''],
     Array [Str ''impl&lt;'__pin, S&gt; <a class=\"trait\" href=\"https://doc.rust-lang.org/nightly/core/marker/trait.Unpin.html\" title=\"trait core::marker::Unpin\">Unpin</a> for <a class=\"struct\" href=\"actix/fut/stream/struct.Finish.html\" title=\"struct actix::fut::stream::Finish\">Finish</a>&lt;S&gt;<span class=\"where fmt-newline\">where\<newline>    __Origin&lt;'__pin, S&gt;: <a class=\"trait\" href=\"https://doc.rust-lang.org/nightly/core/marker/trait.Unpin.html\" title=\"trait core::marker::Unpin\">Unpin</a>,</span>''],
     Array [Str ''impl&lt;'__pin, A, B, F&gt; <a class=\"trait\" href=\"https://doc.rust-lang.org/nightly/core/marker/trait.Unpin.html\" title=\"trait core::marker::Unpin\">Unpin</a> for <a class=\"enum\" href=\"actix/fut/future/enum.Then.html\" title=\"enum actix::fut::future::Then\">Then</a>&lt;A, B, F&gt;<span class=\"where fmt-newline\">where\<newline>    __Origin&lt;'__pin, A, B, F&gt;: <a class=\"trait\" href=\"https://doc.rust-lang.org/nightly/core/marker/trait.Unpin.html\" title=\"trait core::marker::Unpin\">Unpin</a>,</span>''],
     Array [Str ''impl&lt;'__pin, A, B, F&gt; <a class=\"trait\" href=\"https://doc.rust-lang.org/nightly/core/marker/trait.Unpin.html\" title=\"trait core::marker::Unpin\">Unpin</a> for <a class=\"enum\" href=\"actix/fut/try_future/enum.AndThen.html\" title=\"enum actix::fut::try_future::AndThen\">AndThen</a>&lt;A, B, F&gt;<span class=\"where fmt-newline\">where\<newline>    __Origin&lt;'__pin, A, B, F&gt;: <a class=\"trait\" href=\"https://doc.rust-lang.org/nightly/core/marker/trait.Unpin.html\" title=\"trait core::marker::Unpin\">Unpin</a>,</span>''],
     Array [Str ''impl&lt;'__pin, S, I, F, Fut&gt; <a class=\"trait\" href=\"https://doc.rust-lang.org/nightly/core/marker/trait.Unpin.html\" title=\"trait core::marker::Unpin\">Unpin</a> for <a class=\"struct\" href=\"actix/fut/stream/struct.TakeWhile.html\" title=\"struct actix::fut::stream::TakeWhile\">TakeWhile</a>&lt;S, I, F, Fut&gt;<span class=\"where fmt-newline\">where\<newline>    __Origin&lt;'__pin, S, I, F, Fut&gt;: <a class=\"trait\" href=\"https://doc.rust-lang.org/nightly/core/marker/trait.Unpin.html\" title=\"trait core::marker::Unpin\">Unpin</a>,</span>'']]"

definition implementors_actix_broker :: jsval where
  "implementors_actix_broker = Array [
     Array [Str ''impl&lt;T&gt; <a class=\"trait\" href=\"https://doc.rust-lang.org/nightly/core/marker/trait.Unpin.html\" title=\"trait core::marker::Unpin\">Unpin</a> for <a class=\"struct\" href=\"actix_broker/struct.Broker.html\" title=\"struct actix_broker::Broker\">Broker</a>&lt;T&gt;<span class=\"where fmt-newline\">where\<newline>    T: <a class=\"trait\" href=\"https://doc.rust-lang.org/nightly/core/marker/trait.Unpin.html\" title=\"trait core::marker::Unpin\">Unpin</a>,</span>'', Number 1, Array [Str ''actix_broker::broker::Broker'']],
     Array [Str ''impl <a class=\"trait\" href=\"https://doc.rust-lang.org/nightly/core/marker/trait.Unpin.html\" title=\"trait core::marker::Unpin\">Unpin</a> for <a class=\"struct\" href=\"actix_broker/struct.SystemBroker.html\" title=\"struct actix_broker::SystemBroker\">SystemBroker</a>'', Number 1, Array [Str ''actix_broker::broker::SystemBroker'']],
     Array [Str ''impl <a class=\"trait\" href=\"https://doc.rust-lang.org/nightly/core/marker/trait.Unpin.html\" title=\"trait core::marker::Unpin\">Unpin</a> for <a class=\"struct\" href=\"actix_broker/struct.ArbiterBroker.html\" title=\"struct actix_broker::ArbiterBroker\">ArbiterBroker</a>'', Number 1, Array [Str ''actix_broker::broker::ArbiterBroker'']]]"

definition implementors :: jsval where
  "implementors = Object [
     (''actix'', implementors_actix),
     (''actix_broker'', implementors_actix_broker)]"

section \<open>The global object and the host's functions\<close>

text \<open>
  \<^verbatim>\<open>window\<close> maps property names to values; a property that was never set reads
  \<^verbatim>\<open>undefined\<close>. The fragment touches two of its properties, taken to be plain data
  properties: reading one has no effect and assigning one stores the value.
\<close>

type_synonym window = "string \<Rightarrow> jsval"

abbreviation register_implementors :: string where
  "register_implementors \<equiv> ''register_implementors''"

abbreviation pending_implementors :: string where
  "pending_implementors \<equiv> ''pending_implementors''"

text \<open>
  A call either returns a value or throws one. \<open>TypeError\<close> is what the language
  itself throws when the callee is not a function; \<open>Thrown v\<close> is a value thrown by
  the called function.
\<close>

datatype error = TypeError | Thrown jsval

text \<open>
  The page's functions are not part of the file: the host gives, for each function value,
  what a call with given arguments does to the global object and how it completes
  (\<open>Inr\<close> the returned value, \<open>Inl\<close> the error). A called function may write any
  property, the two of the fragment included. The fragment has no loop of its own; a hook
  that never returns is not modelled.
\<close>

type_synonym host = "nat \<Rightarrow> jsval list \<Rightarrow> window \<Rightarrow> (error + jsval) \<times> window"

text \<open>
  What the fragment itself does, in order: a call of a function with its argument list,
  or an assignment to a property of \<^verbatim>\<open>window\<close>.
\<close>

datatype effect = Invoke nat "jsval list" | Assign string jsval

record outcome =
  effects :: "effect list"
  completion :: "error + jsval"
  globals :: window

section \<open>The dispatch (line 4)\<close>

text \<open>
  \<^verbatim>\<open>window.register_implementors(implementors)\<close>: the callee is read, and called when it
  is a function; any other callee is a \<open>TypeError\<close> and nothing is called.
\<close>

fun call :: "host \<Rightarrow> jsval \<Rightarrow> jsval list \<Rightarrow> window \<Rightarrow> outcome" where
  "call h (Function f) args w =
     (case h f args w of
        (c, w') \<Rightarrow> \<lparr>effects = [Invoke f args], completion = c, globals = w'\<rparr>)"
| "call h callee args w =
     \<lparr>effects = [], completion = Inl TypeError, globals = w\<rparr>"

text \<open>
  \<^verbatim>\<open>if (window.register_implementors) {window.register_implementors(implementors);}
  else {window.pending_implementors = implementors;}\<close>
  with the variable \<^verbatim>\<open>implementors\<close> as the parameter \<open>tbl\<close>. The value the hook
  returns is dropped; the enclosing function returns \<^verbatim>\<open>undefined\<close>. Nothing is caught.
\<close>

definition dispatch :: "jsval \<Rightarrow> host \<Rightarrow> window \<Rightarrow> outcome" where
  "dispatch tbl h w =
     (if truthy (w register_implementors) then
        (let r = call h (w register_implementors) [tbl] w in
         case completion r of
           Inl e \<Rightarrow> r
         | Inr v \<Rightarrow> r\<lparr>completion := Inr Undefined\<rparr>)
      else
        \<lparr>effects = [Assign pending_implementors tbl],
         completion = Inr Undefined,
         globals = w(pending_implementors := tbl)\<rparr>)"

text \<open>The whole file: the dispatch applied to the literal of lines 1 to 3.\<close>

definition fragment :: "host \<Rightarrow> window \<Rightarrow> outcome" where
  "fragment h w = dispatch implementors h w"

section \<open>The shape of the table\<close>

text \<open>
  Every record of the table with the key it is listed under, in the order of the literal.
\<close>

fun records :: "jsval \<Rightarrow> (string \<times> jsval) list" where
  "records (Object kvs) = concat (map (\<lambda>(k, v). map (Pair k) (elements v)) kvs)"
| "records _ = []"

fun is_string :: "jsval \<Rightarrow> bool" where
  "is_string (Str s) = True"
| "is_string _ = False"

fun is_number :: "jsval \<Rightarrow> bool" where
  "is_number (Number n) = True"
| "is_number NaN = True"
| "is_number _ = False"

text \<open>
  The record shape of the interface description: a triple of a markup string, a number and
  an array of strings.
\<close>

fun is_triple :: "jsval \<Rightarrow> bool" where
  "is_triple (Array [m, f, ps]) =
     (is_string m \<and> is_number f \<and>
      (case ps of Array segs \<Rightarrow> list_all is_string segs | _ \<Rightarrow> False))"
| "is_triple _ = False"

text \<open>The shorter record the table also holds: the markup string alone.\<close>

fun is_single :: "jsval \<Rightarrow> bool" where
  "is_single (Array [m]) = is_string m"
| "is_single _ = False"

text \<open>
  The described shape of the whole value: an object whose every property is an array of
  triples.
\<close>

fun conforms :: "jsval \<Rightarrow> bool" where
  "conforms (Object kvs) =
     list_all (\<lambda>(k, v). case v of Array rs \<Rightarrow> list_all is_triple rs | _ \<Rightarrow> False) kvs"
| "conforms _ = False"

text \<open>The same with both record shapes admitted.\<close>

fun conforms_either :: "jsval \<Rightarrow> bool" where
  "conforms_either (Object kvs) =
     list_all (\<lambda>(k, v). case v of
                 Array rs \<Rightarrow> list_all (\<lambda>r. is_triple r \<or> is_single r) rs
               | _ \<Rightarrow> False) kvs"
| "conforms_either _ = False"

text \<open>
  The components of a path string, as \<^verbatim>\<open>s.split("::")\<close> gives them: \<open>acc\<close> holds the
  current component in reverse.
\<close>

fun split_colons :: "string \<Rightarrow> string \<Rightarrow> string list" where
  "split_colons acc [] = [rev acc]"
| "split_colons acc [c] = [rev (c # acc)]"
| "split_colons acc (c # d # cs) =
     (if c = CHR '':'' \<and> d = CHR '':'' then rev acc # split_colons [] cs
      else split_colons (c # acc) (d # cs))"

fun segments :: "jsval \<Rightarrow> string list" where
  "segments (Str s) = split_colons [] s"
| "segments _ = []"

section \<open>Hosts and pages used as examples\<close>

text \<open>A page on which nothing is defined.\<close>

definition blank :: window where
  "blank = (\<lambda>p. Undefined)"

text \<open>
  A hook that keeps its argument list in the property \<^verbatim>\<open>captured\<close> and returns a
  value; one that keeps it and then throws a string.
\<close>

definition recorder :: host where
  "recorder f args w = (Inr (Number 7), w(''captured'' := Array args))"

definition thrower :: host where
  "thrower f args w = (Inl (Thrown (Str ''boom'')), w(''captured'' := Array args))"

text \<open>A hook that puts a value of its own into the pending slot and then throws.\<close>

definition scribbler :: host where
  "scribbler f args w = (Inl (Thrown (Str ''boom'')), w(pending_implementors := Str ''byhook''))"

section \<open>The dispatch, case by case\<close>

lemma dispatch_falsy:
  "\<not> truthy (w register_implementors) \<Longrightarrow>
   dispatch tbl h w =
     \<lparr>effects = [Assign pending_implementors tbl], completion = Inr Undefined,
      globals = w(pending_implementors := tbl)\<rparr>"
  by (simp add: dispatch_def)

lemma dispatch_function:
  "w register_implementors = Function f \<Longrightarrow>
   dispatch tbl h w =
     \<lparr>effects = [Invoke f [tbl]],
      completion = (case fst (h f [tbl] w) of Inl e \<Rightarrow> Inl e | Inr v \<Rightarrow> Inr Undefined),
      globals = snd (h f [tbl] w)\<rparr>"
  by (simp add: dispatch_def Let_def split: prod.splits sum.splits)

text \<open>
  A hook reference that is truthy and not a function: the call is a \<open>TypeError\<close>, and
  the fragment has done nothing.
\<close>

lemma dispatch_not_callable:
  "truthy (w register_implementors) \<Longrightarrow> \<forall>f. w register_implementors \<noteq> Function f \<Longrightarrow>
   dispatch tbl h w = \<lparr>effects = [], completion = Inl TypeError, globals = w\<rparr>"
  by (cases "w register_implementors") (simp_all add: dispatch_def)

section \<open>The table, evaluated\<close>

lemma keys_implementors: "keys implementors = [''actix'', ''actix_broker'']"
  by (simp add: implementors_def)

lemma get_actix: "get implementors ''actix'' = implementors_actix"
  by (simp add: implementors_def)

lemma get_actix_broker: "get implementors ''actix_broker'' = implementors_actix_broker"
  by (simp add: implementors_def)

lemma len_actix: "length (elements implementors_actix) = 48"
  by (simp add: implementors_actix_def)

lemma len_actix_broker: "length (elements implementors_actix_broker) = 3"
  by (simp add: implementors_actix_broker_def)

lemma implementors_not_undefined: "implementors \<noteq> Undefined"
  by (simp add: implementors_def)

lemma records_implementors:
  "records implementors =
     map (Pair ''actix'') (elements implementors_actix) @
     map (Pair ''actix_broker'') (elements implementors_actix_broker)"
  by (simp add: implementors_def)

lemma first_record: "(''actix'', index implementors_actix 0) \<in> set (records implementors)"
  by (simp add: records_implementors implementors_actix_def)

lemma first_record_len: "len (index implementors_actix 0) = 3"
  by (simp add: implementors_actix_def)

lemma triples_actix: "list_all is_triple (take 29 (elements implementors_actix))"
  by (simp add: implementors_actix_def)

lemma singles_actix: "list_all is_single (drop 29 (elements implementors_actix))"
  by (simp add: implementors_actix_def)

lemma triples_actix_broker: "list_all is_triple (elements implementors_actix_broker)"
  by (simp add: implementors_actix_broker_def)

lemma either_all:
  "list_all (\<lambda>(k, r). is_triple r \<or> is_single r) (records implementors)"
  by (simp add: records_implementors implementors_actix_def implementors_actix_broker_def)

lemma conforms_either_implementors: "conforms_either implementors"
  by (simp add: implementors_def implementors_actix_def implementors_actix_broker_def)

lemma flags_all:
  "list_all (\<lambda>(k, r). 2 \<le> len r \<longrightarrow> index r 1 = Number 1) (records implementors)"
  by (simp add: records_implementors implementors_actix_def implementors_actix_broker_def)

lemma flagged_actix: "list_all (\<lambda>r. len r = 3) (take 29 (elements implementors_actix))"
  by (simp add: implementors_actix_def)

lemma flagless_actix: "list_all (\<lambda>r. len r = 1) (drop 29 (elements implementors_actix))"
  by (simp add: implementors_actix_def)

lemma flagged_actix_broker: "list_all (\<lambda>r. len r = 3) (elements implementors_actix_broker)"
  by (simp add: implementors_actix_broker_def)

lemma paths_all:
  "list_all (\<lambda>(k, r). 3 \<le> len r \<longrightarrow>
      len (index r 2) = 1 \<and> hd (segments (index (index r 2) 0)) = k) (records implementors)"
  by (simp add: records_implementors implementors_actix_def implementors_actix_broker_def)

section \<open>Which effect the fragment has\<close>

text \<open>
  C1, as stated, at a hook reference that is truthy and not a function (the boolean
  \<^verbatim>\<open>true\<close>): the condition holds, the call raises a \<open>TypeError\<close>, no function is
  invoked and the pending slot is not written. Neither effect takes place.
\<close>

theorem neither_effect_counterexample:
  "effects (fragment recorder (blank(register_implementors := Boolean True))) = []
   \<and> completion (fragment recorder (blank(register_implementors := Boolean True)))
       = Inl TypeError
   \<and> globals (fragment recorder (blank(register_implementors := Boolean True)))
       pending_implementors = Undefined"
  by (simp add: fragment_def dispatch_def blank_def)

text \<open>
  C1, amended. For every global state in which the hook reference is a function or is
  falsy, the fragment does exactly one of two things, and which one depends on the
  truthiness of the reference alone. A reference that is a function is called once with
  the table as its argument list, and the fragment assigns nothing: the global object it
  leaves is the one that call left. A falsy reference is not called, and the table is
  assigned to the pending slot: the global object is the earlier one with the slot holding
  the table. For any reference that is truthy and not a function, the call raises a
  \<open>TypeError\<close>, nothing is called and the global object is as it was.
\<close>

theorem exactly_one_effect:
  "(w register_implementors = Function f \<longrightarrow>
      fragment h w =
        \<lparr>effects = [Invoke f [implementors]],
         completion = (case fst (h f [implementors] w) of
                         Inl e \<Rightarrow> Inl e | Inr v \<Rightarrow> Inr Undefined),
         globals = snd (h f [implementors] w)\<rparr>)
   \<and> (\<not> truthy (w register_implementors) \<longrightarrow>
      fragment h w =
        \<lparr>effects = [Assign pending_implementors implementors],
         completion = Inr Undefined,
         globals = w(pending_implementors := implementors)\<rparr>)
   \<and> (truthy (w register_implementors) \<and> (\<forall>g. w register_implementors \<noteq> Function g) \<longrightarrow>
      fragment h w = \<lparr>effects = [], completion = Inl TypeError, globals = w\<rparr>)"
  by (simp add: fragment_def dispatch_falsy dispatch_function dispatch_not_callable)

text \<open>
  The three cases on concrete pages. With the recording hook, the hook has received the
  table and the pending slot is still unset; on a blank page the slot holds the table and
  nothing was captured; with the number \<^verbatim>\<open>1\<close> as the reference the fragment fails and
  neither has happened.
\<close>

theorem exactly_one_effect_witness:
  "effects (fragment recorder (blank(register_implementors := Function 0)))
     = [Invoke 0 [implementors]]
   \<and> globals (fragment recorder (blank(register_implementors := Function 0))) ''captured''
     = Array [implementors]
   \<and> globals (fragment recorder (blank(register_implementors := Function 0)))
       pending_implementors = Undefined
   \<and> completion (fragment recorder (blank(register_implementors := Function 0)))
     = Inr Undefined
   \<and> effects (fragment recorder blank) = [Assign pending_implementors implementors]
   \<and> globals (fragment recorder blank) pending_implementors = implementors
   \<and> globals (fragment recorder blank) ''captured'' = Undefined
   \<and> completion (fragment recorder blank) = Inr Undefined
   \<and> effects (fragment recorder (blank(register_implementors := Number 1))) = []
   \<and> completion (fragment recorder (blank(register_implementors := Number 1)))
     = Inl TypeError
   \<and> globals (fragment recorder (blank(register_implementors := Number 1)))
     = blank(register_implementors := Number 1)"
  using exactly_one_effect [of "blank(register_implementors := Function 0)" 0 recorder]
    exactly_one_effect [of blank 0 recorder]
    exactly_one_effect [of "blank(register_implementors := Number 1)" 0 recorder]
  by (simp add: blank_def recorder_def)

section \<open>The hook is present\<close>

text \<open>
  C2, as stated, at a hook reference that is defined and falsy (the number
  \<^verbatim>\<open>0\<close>): the hook is not called, and the pending slot, \<^verbatim>\<open>undefined\<close> before, holds
  the table afterwards.
\<close>

theorem defined_falsy_hook_counterexample:
  "effects (fragment recorder (blank(register_implementors := Number 0)))
     = [Assign pending_implementors implementors]
   \<and> (blank(register_implementors := Number 0)) pending_implementors = Undefined
   \<and> globals (fragment recorder (blank(register_implementors := Number 0)))
       pending_implementors = implementors
   \<and> implementors \<noteq> Undefined"
  by (simp add: fragment_def dispatch_def blank_def implementors_not_undefined)

text \<open>
  C2, amended. For every global state in which the hook reference is a function, the
  fragment calls it exactly once, within its own run, with the table as the only
  argument, and assigns nothing itself: the global object it leaves is the one the hook
  left, so the pending slot has its earlier value whenever the hook did not write it.
\<close>

theorem hook_function_called_once:
  assumes "w register_implementors = Function f"
  shows "effects (fragment h w) = [Invoke f [implementors]]
    \<and> globals (fragment h w) = snd (h f [implementors] w)
    \<and> (snd (h f [implementors] w) pending_implementors = w pending_implementors \<longrightarrow>
         globals (fragment h w) pending_implementors = w pending_implementors)"
  using assms by (simp add: fragment_def dispatch_function)

text \<open>
  The recording hook on a page whose pending slot holds an earlier value: the captured
  argument list is the table alone, the slot keeps the earlier value.
\<close>

theorem hook_function_called_once_witness:
  "effects (fragment recorder
       (blank(register_implementors := Function 0, pending_implementors := Str ''earlier'')))
      = [Invoke 0 [implementors]]
   \<and> globals (fragment recorder
       (blank(register_implementors := Function 0, pending_implementors := Str ''earlier'')))
       ''captured'' = Array [implementors]
   \<and> globals (fragment recorder
       (blank(register_implementors := Function 0, pending_implementors := Str ''earlier'')))
       pending_implementors = Str ''earlier''"
  using hook_function_called_once
    [of "blank(register_implementors := Function 0, pending_implementors := Str ''earlier'')"
        0 recorder]
  by (simp add: blank_def recorder_def)

text \<open>
  C8, as stated, at a hook that writes the pending slot and then throws: the error reaches
  the caller as thrown, and the slot, which held \<^verbatim>\<open>"earlier"\<close>, holds the hook's value
  afterwards. Line 4 does nothing after the call, so nothing puts the earlier value back.
\<close>

theorem hook_writes_then_throws_counterexample:
  "(blank(register_implementors := Function 0, pending_implementors := Str ''earlier''))
       register_implementors = Function 0
   \<and> completion (fragment scribbler
       (blank(register_implementors := Function 0, pending_implementors := Str ''earlier'')))
      = Inl (Thrown (Str ''boom''))
   \<and> (blank(register_implementors := Function 0, pending_implementors := Str ''earlier''))
       pending_implementors = Str ''earlier''
   \<and> globals (fragment scribbler
       (blank(register_implementors := Function 0, pending_implementors := Str ''earlier'')))
       pending_implementors = Str ''byhook''
   \<and> Str ''byhook'' \<noteq> Str ''earlier''"
  by (simp add: fragment_def dispatch_def blank_def scribbler_def)

text \<open>
  C8, amended. When the hook is a function and its call with the table throws \<open>e\<close>, the
  fragment completes with that same \<open>e\<close>: it catches, wraps and logs nothing. Its only
  effect is the invocation, and it writes nothing itself: the global object it leaves is
  the one the hook left at the throw, so the pending slot has its earlier value whenever
  the hook did not write it.
\<close>

theorem hook_error_propagates:
  assumes "w register_implementors = Function f"
    and "h f [implementors] w = (Inl e, w')"
  shows "fragment h w =
           \<lparr>effects = [Invoke f [implementors]], completion = Inl e, globals = w'\<rparr>
    \<and> (w' pending_implementors = w pending_implementors \<longrightarrow>
         globals (fragment h w) pending_implementors = w pending_implementors)"
  using assms by (simp add: fragment_def dispatch_function)

text \<open>The throwing hook: the string it throws is what the fragment completes with.\<close>

theorem hook_error_propagates_witness:
  "completion (fragment thrower
       (blank(register_implementors := Function 0, pending_implementors := Str ''earlier'')))
      = Inl (Thrown (Str ''boom''))
   \<and> effects (fragment thrower
       (blank(register_implementors := Function 0, pending_implementors := Str ''earlier'')))
      = [Invoke 0 [implementors]]
   \<and> globals (fragment thrower
       (blank(register_implementors := Function 0, pending_implementors := Str ''earlier'')))
       pending_implementors = Str ''earlier''"
  using hook_error_propagates
    [of "blank(register_implementors := Function 0, pending_implementors := Str ''earlier'')"
        0 thrower "Thrown (Str ''boom'')"
        "blank(register_implementors := Function 0, pending_implementors := Str ''earlier'',
               ''captured'' := Array [implementors])"]
  by (simp add: blank_def thrower_def)

section \<open>The hook is absent or falsy\<close>

text \<open>
  C3. When the hook is absent before the fragment runs, the fragment completes normally,
  its only effect is the assignment of the table to the pending slot, which then holds a
  value equal to the literal, and no function is invoked.
\<close>

theorem hook_absent_stores_table:
  assumes "w register_implementors = Undefined"
  shows "effects (fragment h w) = [Assign pending_implementors implementors]
    \<and> globals (fragment h w) pending_implementors = implementors
    \<and> completion (fragment h w) = Inr Undefined
    \<and> (\<forall>f args. Invoke f args \<notin> set (effects (fragment h w)))"
  using assms by (simp add: fragment_def dispatch_falsy)

theorem hook_absent_stores_table_witness:
  "blank register_implementors = Undefined
   \<and> effects (fragment recorder blank) = [Assign pending_implementors implementors]
   \<and> globals (fragment recorder blank) pending_implementors = implementors
   \<and> completion (fragment recorder blank) = Inr Undefined"
  using hook_absent_stores_table [of blank recorder] by (simp add: blank_def)

text \<open>
  C4. With the hook absent, whatever the pending slot held, a run completes normally and
  leaves the slot holding the table of that run. A second run, on the state the first one
  left, leaves the table of the second run alone in the slot: the state after both runs is
  the state the second run alone would have left. It is stated for any two tables
  (\<open>dispatch\<close>) and for the file run twice (\<open>fragment\<close>).
\<close>

theorem pending_slot_overwritten:
  assumes "w register_implementors = Undefined"
  shows "completion (dispatch t1 h w) = Inr Undefined
    \<and> globals (dispatch t1 h w) pending_implementors = t1
    \<and> completion (dispatch t2 h (globals (dispatch t1 h w))) = Inr Undefined
    \<and> globals (dispatch t2 h (globals (dispatch t1 h w))) pending_implementors = t2
    \<and> globals (dispatch t2 h (globals (dispatch t1 h w))) = globals (dispatch t2 h w)
    \<and> completion (fragment h (globals (fragment h w))) = Inr Undefined
    \<and> globals (fragment h (globals (fragment h w))) pending_implementors = implementors"
  using assms by (simp add: fragment_def dispatch_falsy)

text \<open>A page whose pending slot already holds a value, loaded twice.\<close>

theorem pending_slot_overwritten_witness:
  "(blank(pending_implementors := Str ''earlier'')) register_implementors = Undefined
   \<and> globals (dispatch (Number 2) recorder
        (globals (dispatch (Number 1) recorder (blank(pending_implementors := Str ''earlier'')))))
        pending_implementors = Number 2
   \<and> globals (fragment recorder
        (globals (fragment recorder (blank(pending_implementors := Str ''earlier'')))))
        pending_implementors = implementors"
proof -
  have absent: "(blank(pending_implementors := Str ''earlier'')) register_implementors = Undefined"
    by (simp add: blank_def)
  from pending_slot_overwritten
    [of "blank(pending_implementors := Str ''earlier'')" "Number 1" recorder "Number 2", OF absent]
    absent
  show ?thesis by blast
qed

text \<open>
  C9. The condition is the truthiness of the hook reference: whenever the reference is
  falsy, the fragment invokes nothing and assigns the table to the pending slot; and
  \<^verbatim>\<open>null\<close>, \<^verbatim>\<open>0\<close>, \<^verbatim>\<open>false\<close> and the empty string, all defined values, are falsy.
\<close>

theorem falsy_hook_not_invoked:
  "(\<not> truthy (w register_implementors) \<longrightarrow>
       effects (fragment h w) = [Assign pending_implementors implementors]
     \<and> globals (fragment h w) pending_implementors = implementors
     \<and> completion (fragment h w) = Inr Undefined
     \<and> (\<forall>f args. Invoke f args \<notin> set (effects (fragment h w))))
   \<and> \<not> truthy Null \<and> \<not> truthy (Number 0) \<and> \<not> truthy (Boolean False)
   \<and> \<not> truthy (Str [])"
  by (simp add: fragment_def dispatch_falsy)

theorem falsy_hook_not_invoked_witness:
  "effects (fragment recorder (blank(register_implementors := Null)))
      = [Assign pending_implementors implementors]
   \<and> effects (fragment recorder (blank(register_implementors := Str [])))
      = [Assign pending_implementors implementors]
   \<and> globals (fragment recorder (blank(register_implementors := Boolean False)))
       pending_implementors = implementors
   \<and> globals (fragment recorder (blank(register_implementors := Number 0)))
       pending_implementors = implementors"
  using falsy_hook_not_invoked [of "blank(register_implementors := Null)" recorder]
    falsy_hook_not_invoked [of "blank(register_implementors := Str [])" recorder]
    falsy_hook_not_invoked [of "blank(register_implementors := Boolean False)" recorder]
    falsy_hook_not_invoked [of "blank(register_implementors := Number 0)" recorder]
  by (simp add: blank_def)

section \<open>What the table holds\<close>

text \<open>
  C5. The value the fragment hands over is read where it arrives. When the hook reference
  is falsy, the pending slot afterwards holds a value whose keys are \<^verbatim>\<open>"actix"\<close> and
  \<^verbatim>\<open>"actix_broker"\<close> and no other, each once, with the array of line 2 (48 records) and
  of line 3 (3 records) under them, element for element in the same order. When the
  reference is a function, that function is applied once to the earlier global object and
  an argument list of one value, which is that same table, and the global object
  afterwards is the one this application left.
\<close>

theorem handed_table_contents:
  "(\<not> truthy (w register_implementors) \<longrightarrow>
      globals (fragment h w) pending_implementors = implementors
    \<and> set (keys (globals (fragment h w) pending_implementors)) = {''actix'', ''actix_broker''}
    \<and> distinct (keys (globals (fragment h w) pending_implementors))
    \<and> get (globals (fragment h w) pending_implementors) ''actix'' = implementors_actix
    \<and> get (globals (fragment h w) pending_implementors) ''actix_broker''
        = implementors_actix_broker
    \<and> len (get (globals (fragment h w) pending_implementors) ''actix'') = 48
    \<and> len (get (globals (fragment h w) pending_implementors) ''actix_broker'') = 3)
   \<and> (w register_implementors = Function f \<longrightarrow>
      (\<exists>t. effects (fragment h w) = [Invoke f [t]]
         \<and> globals (fragment h w) = snd (h f [t] w)
         \<and> t = implementors
         \<and> set (keys t) = {''actix'', ''actix_broker''}
         \<and> distinct (keys t)
         \<and> get t ''actix'' = implementors_actix
         \<and> get t ''actix_broker'' = implementors_actix_broker
         \<and> len (get t ''actix'') = 48
         \<and> len (get t ''actix_broker'') = 3))"
  by (simp add: fragment_def dispatch_falsy dispatch_function
      keys_implementors get_actix get_actix_broker len_actix len_actix_broker)

text \<open>
  On a blank page the table is read back from the pending slot; with the recording hook
  it is read back from what the hook captured.
\<close>

theorem handed_table_contents_witness:
  "set (keys (globals (fragment recorder blank) pending_implementors))
     = {''actix'', ''actix_broker''}
   \<and> len (get (globals (fragment recorder blank) pending_implementors) ''actix_broker'') = 3
   \<and> len (get (globals (fragment recorder blank) pending_implementors) ''actix'') = 48
   \<and> globals (fragment recorder (blank(register_implementors := Function 0))) ''captured''
     = Array [implementors]
   \<and> set (keys (index (globals (fragment recorder (blank(register_implementors := Function 0)))
        ''captured'') 0)) = {''actix'', ''actix_broker''}
   \<and> len (get (index (globals (fragment recorder (blank(register_implementors := Function 0)))
        ''captured'') 0) ''actix_broker'') = 3"
  using handed_table_contents [of blank recorder 0]
    handed_table_contents [of "blank(register_implementors := Function 0)" recorder 0]
  by (simp add: blank_def recorder_def keys_implementors get_actix get_actix_broker
      len_actix len_actix_broker)

text \<open>
  C6, as stated, at the record of index 29 under \<^verbatim>\<open>"actix"\<close> (the first of the
  \<^verbatim>\<open>__Origin\<close> implementations): it is an array of one element, the markup string, with
  neither flag nor path. The table does not conform to the described shape.
\<close>

theorem record_shape_counterexample:
  "len (index (get implementors ''actix'') 29) = 1
   \<and> \<not> is_triple (index (get implementors ''actix'') 29)
   \<and> \<not> conforms implementors"
  by (simp add: implementors_def implementors_actix_def)

text \<open>
  C6, amended. Every record of the table is either a triple of a markup string, a number
  and an array of strings, or an array holding the markup string alone. Under
  \<^verbatim>\<open>"actix"\<close> the first 29 records are triples and the other 19 hold the markup alone;
  the 3 records under \<^verbatim>\<open>"actix_broker"\<close> are triples.
\<close>

theorem table_conforms_either:
  "conforms_either implementors
   \<and> list_all (\<lambda>(k, r). is_triple r \<or> is_single r) (records implementors)
   \<and> list_all is_triple (take 29 (elements (get implementors ''actix'')))
   \<and> list_all is_single (drop 29 (elements (get implementors ''actix'')))
   \<and> list_all is_triple (elements (get implementors ''actix_broker''))"
  using conforms_either_implementors either_all triples_actix singles_actix triples_actix_broker
  by (simp only: get_actix get_actix_broker simp_thms)

text \<open>
  C7, as stated, at the same record: it has no second component (reading it gives
  \<^verbatim>\<open>undefined\<close>), so its flag is not the number 1.
\<close>

theorem flag_absent_counterexample:
  "index (index (get implementors ''actix'') 29) 1 = Undefined
   \<and> index (index (get implementors ''actix'') 29) 1 \<noteq> Number 1"
  by (simp add: implementors_def implementors_actix_def)

text \<open>
  C7, amended. In every record that has a second component, that component is the number
  1. The first 29 records under \<^verbatim>\<open>"actix"\<close> and the 3 under \<^verbatim>\<open>"actix_broker"\<close> have
  three components; the other 19 under \<^verbatim>\<open>"actix"\<close> have one, and no flag.
\<close>

theorem flag_is_one_where_present:
  "(\<forall>(k, r) \<in> set (records implementors). 2 \<le> len r \<longrightarrow> index r 1 = Number 1)
   \<and> list_all (\<lambda>r. len r = 3) (take 29 (elements (get implementors ''actix'')))
   \<and> list_all (\<lambda>r. len r = 1) (drop 29 (elements (get implementors ''actix'')))
   \<and> list_all (\<lambda>r. len r = 3) (elements (get implementors ''actix_broker''))"
proof -
  from flags_all
  have "\<forall>(k, r) \<in> set (records implementors). 2 \<le> len r \<longrightarrow> index r 1 = Number 1"
    by (simp only: list_all_iff)
  with flagged_actix flagless_actix flagged_actix_broker show ?thesis
    by (simp only: get_actix get_actix_broker simp_thms)
qed

theorem flag_is_one_where_present_witness:
  "(''actix'', index implementors_actix 0) \<in> set (records implementors)
   \<and> 2 \<le> len (index implementors_actix 0)
   \<and> index (index implementors_actix 0) 1 = Number 1"
proof -
  have l: "2 \<le> len (index implementors_actix 0)"
    by (simp only: first_record_len)
  from flag_is_one_where_present first_record l
  show ?thesis by blast
qed

text \<open>
  C10, as stated, at the first record under \<^verbatim>\<open>"actix"\<close>: the first element of its
  path array is the whole path \<^verbatim>\<open>actix::actor::ActorState\<close>, not the key.
\<close>

theorem first_segment_counterexample:
  "index (index (index (get implementors ''actix'') 0) 2) 0 = Str ''actix::actor::ActorState''
   \<and> index (index (index (get implementors ''actix'') 0) 2) 0 \<noteq> Str ''actix''"
  by (simp add: implementors_def implementors_actix_def)

text \<open>
  C10, amended. In every record that has a third component, that component is an array of
  one string, a path whose components are joined by \<^verbatim>\<open>::\<close>, and the first component of
  that path is the key the record is listed under.
\<close>

theorem path_starts_with_library:
  "\<forall>(k, r) \<in> set (records implementors). 3 \<le> len r \<longrightarrow>
      len (index r 2) = 1 \<and> hd (segments (index (index r 2) 0)) = k"
  using paths_all by (simp only: list_all_iff)

theorem path_starts_with_library_witness:
  "(''actix'', index implementors_actix 0) \<in> set (records implementors)
   \<and> 3 \<le> len (index implementors_actix 0)
   \<and> segments (index (index (index implementors_actix 0) 2) 0)
       = [''actix'', ''actor'', ''ActorState'']
   \<and> hd (segments (index (index (index implementors_actix 0) 2) 0)) = ''actix''"
proof -
  have l: "3 \<le> len (index implementors_actix 0)"
    by (simp only: first_record_len)
  have s: "segments (index (index (index implementors_actix 0) 2) 0)
       = [''actix'', ''actor'', ''ActorState'']"
    by (simp add: implementors_actix_def)
  from path_starts_with_library first_record l s
  show ?thesis by blast
qed

end
